theory Spec2Isabelle
  imports Complex_Main
begin

section \<open>Python values, exceptions and strings\<close>

text \<open>
  The exceptions that the modelled functions raise or meet. An exception is its class and
  its message (\<open>str(e)\<close>). The text of an exception raised inside a library is not known
  from the source; the model gives it a fixed description.
\<close>

datatype exc_kind =
    ValueError | RuntimeError | AttributeError | ZeroDivisionError | IndexError
  | OverflowError | OSError | PermissionError | FileNotFoundError | FileExistsError
  | MutagenError | JSONDecodeError | TypeError | KeyError | DownloadError

type_synonym pyexc = "exc_kind \<times> string"

text \<open>Decimal rendering of integers, as an f-string does it.\<close>

fun str_nat :: "nat \<Rightarrow> string" where
  "str_nat n =
     (if n < 10 then [''0123456789'' ! n]
      else str_nat (n div 10) @ [''0123456789'' ! (n mod 10)])"

declare str_nat.simps [simp del]

definition str_int :: "int \<Rightarrow> string" where
  "str_int i = (if i < 0 then CHR ''-'' # str_nat (nat (- i)) else str_nat (nat i))"

text \<open>
  \<open>str.lower\<close>, \<open>str.endswith\<close>, the \<open>in\<close> test on strings and \<open>str.split('=')[1]\<close>. A
  character is a code point below 256; the letters that \<open>lower\<close> has to produce for the
  suffix test are the ASCII ones.
\<close>

definition lower_char :: "char \<Rightarrow> char" where
  "lower_char c =
     (case map_of (zip ''ABCDEFGHIJKLMNOPQRSTUVWXYZ'' ''abcdefghijklmnopqrstuvwxyz'') c of
        None \<Rightarrow> c
      | Some l \<Rightarrow> l)"

definition lower :: "string \<Rightarrow> string" where
  "lower s = map lower_char s"

definition endswith :: "string \<Rightarrow> string \<Rightarrow> bool" where
  "endswith s suffix =
     (length suffix \<le> length s \<and> drop (length s - length suffix) s = suffix)"

fun startswith :: "string \<Rightarrow> string \<Rightarrow> bool" where
  "startswith s [] = True"
| "startswith [] (p # ps) = False"
| "startswith (c # cs) (p # ps) = (c = p \<and> startswith cs ps)"

fun contains :: "string \<Rightarrow> string \<Rightarrow> bool" where
  "contains sub [] = (sub = [])"
| "contains sub (c # cs) = (startswith (c # cs) sub \<or> contains sub cs)"

definition split_eq_1 :: "string \<Rightarrow> pyexc + string" where
  "split_eq_1 line =
     (if CHR ''='' \<in> set line
      then Inr (takeWhile (\<lambda>c. c \<noteq> CHR ''='') (tl (dropWhile (\<lambda>c. c \<noteq> CHR ''='') line)))
      else Inl (IndexError, ''list index out of range''))"

section \<open>The Python runtime\<close>

text \<open>
  Three expressions of \<open>convert_to_flac\<close> are computed by the interpreter and not by code
  of the repository: \<open>int(s)\<close> on a string, the arithmetic on floats that turns a time
  into a percentage, and the comparison of two durations. What they give depends on the
  interpreter (the rounding of IEEE doubles, the limit on the length of a numeral), so the
  functions below take the runtime as a parameter. A float that is finite is taken as the
  real number it denotes.
\<close>

record runtime =
  int_str :: "string \<Rightarrow> pyexc + int"
  int_truediv :: "int \<Rightarrow> int \<Rightarrow> pyexc + real"
  percent_int :: "real \<Rightarrow> real \<Rightarrow> pyexc + int"
  beyond_tolerance :: "real \<Rightarrow> real \<Rightarrow> bool"

text \<open>
  The fields are \<open>int(s)\<close>, \<open>a / b\<close> on two ints, \<open>int(x / y * 100)\<close> on two floats, and
  \<open>abs(x - y) > 0.1\<close> on two floats. The rest of this section is the runtime that CPython
  provides, \<open>cpython\<close>, which the examples use.
\<close>

subsection \<open>int on a string\<close>

text \<open>
  \<open>int(s)\<close> strips white space from both ends: the ASCII white space (tab to carriage
  return, and the space) and, of the other code points below 256, the next-line and
  no-break-space characters; the separators \<open>0x1C\<close> to \<open>0x1F\<close> are not stripped. What is
  left is an optional sign and decimal digits, with single underscores allowed between
  digits. Since version 3.11 a numeral with more digits than a limit (4300 unless
  configured; 0 switches the limit off) is refused; the limit is the parameter
  \<open>max_str_digits\<close>. Every refusal is a \<open>ValueError\<close>.
\<close>

definition is_space :: "char \<Rightarrow> bool" where
  "is_space c =
     (let n = (of_char c :: nat) in (9 \<le> n \<and> n \<le> 13) \<or> n = 32 \<or> n = 133 \<or> n = 160)"

definition is_digit :: "char \<Rightarrow> bool" where
  "is_digit c = (let n = (of_char c :: nat) in 48 \<le> n \<and> n \<le> 57)"

definition strip :: "string \<Rightarrow> string" where
  "strip s = rev (dropWhile is_space (rev (dropWhile is_space s)))"

fun digits_ok :: "string \<Rightarrow> bool" where
  "digits_ok [] = False"
| "digits_ok [c] = is_digit c"
| "digits_ok (c # d # cs) =
     (is_digit c \<and> (if d = CHR ''_'' then digits_ok cs else digits_ok (d # cs)))"

definition digits_value :: "string \<Rightarrow> int" where
  "digits_value s =
     foldl (\<lambda>a c. if c = CHR ''_'' then a else 10 * a + (int (of_char c) - 48)) 0 s"

definition unsigned :: "string \<Rightarrow> string" where
  "unsigned s =
     (case s of
        [] \<Rightarrow> []
      | c # cs \<Rightarrow> if c = CHR ''-'' \<or> c = CHR ''+'' then cs else s)"

definition py_int :: "nat \<Rightarrow> string \<Rightarrow> pyexc + int" where
  "py_int max_str_digits s =
     (let t = strip s; digits = unsigned t in
      if \<not> digits_ok digits
      then Inl (ValueError, ''invalid literal for int() with base 10'')
      else if 0 < max_str_digits \<and> max_str_digits < length (filter is_digit digits)
      then Inl (ValueError, ''Exceeds the limit for integer string conversion'')
      else if take 1 t = ''-'' then Inr (- digits_value digits)
      else Inr (digits_value digits))"

subsection \<open>Floats\<close>

text \<open>
  A finite double is \<open>m * 2 ^ e\<close> with \<open>\<bar>m\<bar> < 2 ^ 53\<close> and \<open>- 1074 \<le> e \<le> 971\<close>. An operation
  gives the double nearest to the exact result, the one with the even \<open>m\<close> when two are
  equally near (\<open>to_double\<close>); when that is \<open>2 ^ 1024\<close> or more in size there is no such
  double (\<open>None\<close>), and the operation gives an infinity or raises. \<open>binade 11 (- 1022) x\<close>
  is the exponent of the leading bit of \<open>x\<close>, and \<open>- 1022\<close> for the subnormal numbers.
\<close>

definition round_even :: "real \<Rightarrow> int" where
  "round_even x =
     (let f = \<lfloor>x\<rfloor>; d = x - of_int f
      in if d < 1 / 2 then f else if 1 / 2 < d then f + 1 else if even f then f else f + 1)"

definition pow2 :: "int \<Rightarrow> real" where
  "pow2 e = (if 0 \<le> e then 2 ^ nat e else 1 / 2 ^ nat (- e))"

fun binade :: "nat \<Rightarrow> int \<Rightarrow> real \<Rightarrow> int" where
  "binade 0 lo x = lo"
| "binade (Suc k) lo x =
     (if pow2 (lo + 2 ^ k) \<le> x then binade k (lo + 2 ^ k) x else binade k lo x)"

definition to_double :: "real \<Rightarrow> real option" where
  "to_double x =
     (if 2 ^ 1024 \<le> \<bar>x\<bar> then None
      else
        (let e = binade 11 (- 1022) \<bar>x\<bar> - 52;
             y = of_int (round_even (x / pow2 e)) * pow2 e
         in if 2 ^ 1024 \<le> \<bar>y\<bar> then None else Some y))"

text \<open>\<open>int(x)\<close> on a finite float rounds towards zero.\<close>

definition py_trunc :: "real \<Rightarrow> int" where
  "py_trunc x = (if 0 \<le> x then \<lfloor>x\<rfloor> else \<lceil>x\<rceil>)"

text \<open>
  \<open>a / b\<close> on two ints is the double nearest to the quotient; it raises when there is
  none, and on a zero divisor.
\<close>

definition py_int_truediv :: "int \<Rightarrow> int \<Rightarrow> pyexc + real" where
  "py_int_truediv a b =
     (if b = 0 then Inl (ZeroDivisionError, ''division by zero'')
      else
        (case to_double (of_int a / of_int b) of
           None \<Rightarrow> Inl (OverflowError, ''integer division result too large for a float'')
         | Some q \<Rightarrow> Inr q))"

text \<open>
  \<open>int(x / y * 100)\<close> on two finite floats. The division raises on a zero divisor; a
  quotient or product without a finite double is an infinity, on which \<open>int\<close> raises.
\<close>

definition py_percent_int :: "real \<Rightarrow> real \<Rightarrow> pyexc + int" where
  "py_percent_int x y =
     (if y = 0 then Inl (ZeroDivisionError, ''float division by zero'')
      else
        (case to_double (x / y) of
           None \<Rightarrow> Inl (OverflowError, ''cannot convert float infinity to integer'')
         | Some q \<Rightarrow>
             (case to_double (q * 100) of
                None \<Rightarrow> Inl (OverflowError, ''cannot convert float infinity to integer'')
              | Some p \<Rightarrow> Inr (py_trunc p))))"

text \<open>
  \<open>abs(x - y) > 0.1\<close> on two finite floats: the difference is rounded, an infinite
  difference is beyond every bound, and \<open>0.1\<close> is the double nearest to one tenth.
\<close>

definition py_beyond_tolerance :: "real \<Rightarrow> real \<Rightarrow> bool" where
  "py_beyond_tolerance x y =
     (case to_double (x - y) of
        None \<Rightarrow> True
      | Some d \<Rightarrow> (case to_double (1 / 10) of None \<Rightarrow> False | Some tenth \<Rightarrow> tenth < \<bar>d\<bar>))"

definition cpython :: "nat \<Rightarrow> runtime" where
  "cpython max_str_digits =
     \<lparr>int_str = py_int max_str_digits,
      int_truediv = py_int_truediv,
      percent_int = py_percent_int,
      beyond_tolerance = py_beyond_tolerance\<rparr>"

section \<open>Files, audio streams and the world\<close>

text \<open>
  What the tag library reads from a file: the stream properties (\<open>info\<close>) and the tags.
  The duration is a finite float, given as the real number it denotes.
\<close>

record stream_info =
  channels :: int
  sample_rate :: int
  length_sec :: real

type_synonym tag_list = "(string \<times> string) list"

record audio_file =
  is_flac :: bool
  info :: stream_info
  tags :: "tag_list option"

text \<open>
  A path names a directory or a regular file; a regular file has a size in bytes and, when
  the tag library recognises its format, an audio stream. \<open>locked\<close> are the paths that the
  system refuses to unlink: a file that is read-only or in use on Windows, a file in a
  directory without write permission elsewhere.
\<close>

datatype node = Dir nat | File nat "audio_file option"

fun node_size :: "node \<Rightarrow> nat" where
  "node_size (Dir n) = n"
| "node_size (File n a) = n"

record world =
  fs :: "string \<Rightarrow> node option"
  locked :: "string set"
  console :: "string list"
  log :: "string list"

definition print :: "string \<Rightarrow> world \<Rightarrow> world" where
  "print s w = w\<lparr>console := console w @ [s]\<rparr>"

definition logging_error :: "string \<Rightarrow> world \<Rightarrow> world" where
  "logging_error s w = w\<lparr>log := log w @ [s]\<rparr>"

definition os_path_exists :: "world \<Rightarrow> string \<Rightarrow> bool" where
  "os_path_exists w p = (fs w p \<noteq> None)"

definition os_path_getsize :: "world \<Rightarrow> string \<Rightarrow> pyexc + nat" where
  "os_path_getsize w p =
     (case fs w p of
        None \<Rightarrow> Inl (FileNotFoundError, ''No such file or directory'')
      | Some n \<Rightarrow> Inr (node_size n))"

text \<open>
  \<open>os.remove\<close> deletes a regular file. It raises on a missing path, on a directory and on
  a file that the system refuses to unlink.
\<close>

definition os_remove :: "world \<Rightarrow> string \<Rightarrow> pyexc + world" where
  "os_remove w p =
     (case fs w p of
        None \<Rightarrow> Inl (FileNotFoundError, ''No such file or directory'')
      | Some (Dir n) \<Rightarrow> Inl (OSError, ''Is a directory'')
      | Some (File n a) \<Rightarrow>
          if p \<in> locked w then Inl (PermissionError, ''Permission denied'')
          else Inr (w\<lparr>fs := (fs w)(p := None)\<rparr>))"

text \<open>
  \<open>FLAC(path)\<close> parses a FLAC file and raises on anything else; \<open>mutagen.File(path)\<close>
  returns \<open>None\<close> for a file whose format it does not recognise and raises when the path
  cannot be read.
\<close>

definition FLAC :: "world \<Rightarrow> string \<Rightarrow> pyexc + audio_file" where
  "FLAC w p =
     (case fs w p of
        Some (File n (Some a)) \<Rightarrow>
          if is_flac a then Inr a else Inl (MutagenError, ''not a valid FLAC file'')
      | Some (File n None) \<Rightarrow> Inl (MutagenError, ''not a valid FLAC file'')
      | Some (Dir n) \<Rightarrow> Inl (MutagenError, ''Is a directory'')
      | None \<Rightarrow> Inl (MutagenError, ''No such file or directory''))"

definition mutagen_File :: "world \<Rightarrow> string \<Rightarrow> pyexc + audio_file option" where
  "mutagen_File w p =
     (case fs w p of
        Some (File n a) \<Rightarrow> Inr a
      | Some (Dir n) \<Rightarrow> Inl (MutagenError, ''Is a directory'')
      | None \<Rightarrow> Inl (MutagenError, ''No such file or directory''))"

text \<open>
  Saving a tagged object rewrites the file. The size of the rewritten file is the tag
  library's business: it is a parameter, a function of the old size and the object saved,
  and it may be an error.
\<close>

type_synonym saver = "nat \<Rightarrow> audio_file \<Rightarrow> pyexc + nat"

definition save :: "saver \<Rightarrow> world \<Rightarrow> string \<Rightarrow> audio_file \<Rightarrow> pyexc + world" where
  "save sv w p a =
     (case fs w p of
        Some (File n old) \<Rightarrow>
          (case sv n a of
             Inl e \<Rightarrow> Inl e
           | Inr n' \<Rightarrow> Inr (w\<lparr>fs := (fs w)(p \<mapsto> File n' (Some a))\<rparr>))
      | Some (Dir n) \<Rightarrow> Inl (MutagenError, ''Is a directory'')
      | None \<Rightarrow> Inl (MutagenError, ''No such file or directory''))"

text \<open>A tag container is falsy when it is missing or empty.\<close>

definition has_tags :: "audio_file \<Rightarrow> bool" where
  "has_tags a = (case tags a of None \<Rightarrow> False | Some ts \<Rightarrow> ts \<noteq> [])"

text \<open>
  The tag library is not part of the repository. What the functions need from it beyond
  reading is taken as a parameter: the size of a saved file, what the expression
  \<open>mutagen.flac.VorbisComment()\<close> gives (an empty tag container, or \<open>AttributeError\<close> when
  the module has no such name), and the effect of \<open>flac_audio[key] = value\<close> on a tag
  list, which may raise.
\<close>

record mutagen_lib =
  save_size :: saver
  VorbisComment :: "pyexc + tag_list"
  set_tag :: "tag_list \<Rightarrow> string \<Rightarrow> string \<Rightarrow> pyexc + tag_list"

section \<open>DownloadManager.verify_audio_file\<close>

text \<open>
  The function returns \<open>False\<close> from four places and has no other \<open>return\<close>: where the
  checks pass, and for a path that does not end in \<open>.flac\<close>, control leaves the \<open>try\<close>
  block and the function ends, which in Python returns \<open>None\<close>. The result is therefore a
  \<open>bool option\<close>, with \<open>None\<close> for Python's \<open>None\<close>.
\<close>

definition verify_error :: "string \<Rightarrow> pyexc \<Rightarrow> world \<Rightarrow> bool option \<times> world" where
  "verify_error filepath e w =
     (Some False,
      logging_error (''Error verifying audio file '' @ filepath @ '': '' @ snd e) w)"

definition init_tags :: "mutagen_lib \<Rightarrow> world \<Rightarrow> string \<Rightarrow> audio_file \<Rightarrow> pyexc + world" where
  "init_tags lib w filepath audio =
     (case VorbisComment lib of
        Inl e \<Rightarrow> Inl e
      | Inr ts \<Rightarrow> save (save_size lib) w filepath (audio\<lparr>tags := Some ts\<rparr>))"

definition verify_audio_file :: "mutagen_lib \<Rightarrow> world \<Rightarrow> string \<Rightarrow> bool option \<times> world" where
  "verify_audio_file lib w filepath =
     (if endswith (lower filepath) ''.flac'' then
        (case FLAC w filepath of
           Inl e \<Rightarrow> verify_error filepath e w
         | Inr audio \<Rightarrow>
             (case (if \<not> has_tags audio
                    then init_tags lib w filepath audio
                    else Inr w) of
                Inl e \<Rightarrow> verify_error filepath e w
              | Inr w1 \<Rightarrow>
                  if channels (info audio) \<notin> {1, 2} then
                    (Some False,
                     logging_error
                       (''Unexpected channel count: '' @ str_int (channels (info audio))) w1)
                  else if sample_rate (info audio) \<notin> {44100, 48000, 96000} then
                    (Some False,
                     logging_error
                       (''Unexpected sample rate: '' @ str_int (sample_rate (info audio))) w1)
                  else
                    (case os_path_getsize w1 filepath of
                       Inl e \<Rightarrow> verify_error filepath e w1
                     | Inr file_size \<Rightarrow>
                         if file_size < 1024 * 100 then
                           (Some False,
                            logging_error
                              (''FLAC file too small: '' @ str_nat file_size @ '' bytes'') w1)
                         else (None, w1))))
      else (None, w))"

text \<open>Python's truth test on the result: \<open>None\<close> and \<open>False\<close> are falsy.\<close>

definition truthy :: "bool option \<Rightarrow> bool" where
  "truthy r = (r = Some True)"

section \<open>DownloadManager.convert_to_flac\<close>

text \<open>
  The encoder is an external process. A run of it is what the caller can observe: whether
  it starts at all (an exception stands for one raised while the command line is built,
  the bar is created or the process is started), the successive answers of \<open>readline()\<close> on its standard output, each
  with what \<open>poll()\<close> answers at that moment (\<open>None\<close> while it runs, the exit code once it
  has ended), the text on its standard error, and what it leaves at the output path.
\<close>

record encoder_run =
  events :: "(string \<times> int option) list"
  stderr_text :: string
  written :: "(nat \<times> audio_file option) option"

definition write_output :: "(nat \<times> audio_file option) option \<Rightarrow> world \<Rightarrow> string \<Rightarrow> world" where
  "write_output wr w p =
     (case wr of
        None \<Rightarrow> w
      | Some (n, a) \<Rightarrow>
          (case fs w p of
             Some (Dir d) \<Rightarrow> w
           | _ \<Rightarrow> w\<lparr>fs := (fs w)(p \<mapsto> File n a)\<rparr>))"

subsection \<open>The progress loop\<close>

text \<open>
  The percentage a progress line stands for:
  \<open>min(int((time_ms / 1000) / original_audio.info.length * 100), 100)\<close> with
  \<open>time_ms = int(line.split('=')[1])\<close>, evaluated in the order of the source: the number is
  parsed, divided by 1000, then the duration is read from the audio object (\<open>AttributeError\<close>
  when \<open>mutagen.File\<close> gave \<open>None\<close>), then the rest is computed.
\<close>

definition progress_of :: "runtime \<Rightarrow> audio_file option \<Rightarrow> string \<Rightarrow> pyexc + int" where
  "progress_of py original_audio line =
     (case split_eq_1 line of
        Inl e \<Rightarrow> Inl e
      | Inr field \<Rightarrow>
          (case int_str py field of
             Inl e \<Rightarrow> Inl e
           | Inr time_ms \<Rightarrow>
               (case int_truediv py time_ms 1000 of
                  Inl e \<Rightarrow> Inl e
                | Inr seconds \<Rightarrow>
                    (case original_audio of
                       None \<Rightarrow> Inl (AttributeError, ''NoneType object has no attribute info'')
                     | Some a \<Rightarrow>
                         (case percent_int py seconds (length_sec (info a)) of
                            Inl e \<Rightarrow> Inl e
                          | Inr percent \<Rightarrow> Inr (min percent 100))))))"

text \<open>
  One pass through the loop body below the \<open>break\<close> test. The state is \<open>last_progress\<close>
  and the amounts passed to \<open>pbar.update\<close> so far, oldest first. The inner handler
  catches \<open>ValueError\<close> and \<open>AttributeError\<close> only: any other exception ends the loop and
  reaches the handler of the function.
\<close>

definition monitor_line ::
  "runtime \<Rightarrow> audio_file option \<Rightarrow> string \<Rightarrow> int \<times> int list
     \<Rightarrow> pyexc + (int \<times> int list)" where
  "monitor_line py original_audio line st =
     (if contains ''out_time_ms='' line then
        (case progress_of py original_audio line of
           Inl e \<Rightarrow> if fst e = ValueError \<or> fst e = AttributeError then Inr st else Inl e
         | Inr progress \<Rightarrow>
             if progress > fst st
             then Inr (progress, snd st @ [progress - fst st])
             else Inr st)
      else Inr st)"

text \<open>
  The loop ends when \<open>readline()\<close> gives the empty string and the process has an exit
  code. A run whose events never reach that point keeps the loop going for ever: the
  result is \<open>None\<close>.
\<close>

fun monitor ::
  "runtime \<Rightarrow> audio_file option \<Rightarrow> (string \<times> int option) list \<Rightarrow> int \<times> int list
     \<Rightarrow> (pyexc + (int \<times> int \<times> int list)) option" where
  "monitor py original_audio [] st = None"
| "monitor py original_audio ((line, poll) # evs) st =
     (case (line, poll) of
        ([], Some returncode) \<Rightarrow> Some (Inr (returncode, st))
      | _ \<Rightarrow>
          (case monitor_line py original_audio line st of
             Inl e \<Rightarrow> Some (Inl e)
           | Inr st' \<Rightarrow> monitor py original_audio evs st'))"

subsection \<open>The stages of the try block\<close>

definition check_input :: "mutagen_lib \<Rightarrow> world \<Rightarrow> string \<Rightarrow> (pyexc + unit) \<times> world" where
  "check_input lib w input_file =
     (case verify_audio_file lib w input_file of
        (r, w1) \<Rightarrow>
          if \<not> truthy r then (Inl (ValueError, ''Input file verification failed''), w1)
          else (Inr (), w1))"

text \<open>
  From reading the original metadata to the check of the exit code. The result is the
  original audio object, which the later stages use.
\<close>

definition run_encoder ::
  "runtime \<Rightarrow> pyexc + encoder_run \<Rightarrow> world \<Rightarrow> string \<Rightarrow> string
     \<Rightarrow> ((pyexc + audio_file option) \<times> world) option" where
  "run_encoder py proc w input_file output_file =
     (case mutagen_File w input_file of
        Inl e \<Rightarrow> Some (Inl e, w)
      | Inr original_audio \<Rightarrow>
          (case os_path_getsize w input_file of
             Inl e \<Rightarrow> Some (Inl e, w)
           | Inr input_size \<Rightarrow>
               (case proc of
                  Inl e \<Rightarrow> Some (Inl e, w)
                | Inr run \<Rightarrow>
                    (let w1 = write_output (written run) w output_file in
                     case monitor py original_audio (events run) (0, []) of
                       None \<Rightarrow> None
                     | Some (Inl e) \<Rightarrow> Some (Inl e, w1)
                     | Some (Inr (returncode, st)) \<Rightarrow>
                         (let w2 = print ''Complete!'' w1 in
                          if returncode \<noteq> 0
                          then Some (Inl (RuntimeError,
                                  ''FFmpeg conversion failed: '' @ stderr_text run), w2)
                          else Some (Inr original_audio, w2))))))"

definition check_output :: "mutagen_lib \<Rightarrow> world \<Rightarrow> string \<Rightarrow> (pyexc + unit) \<times> world" where
  "check_output lib w output_file =
     (case verify_audio_file lib w output_file of
        (r, w1) \<Rightarrow>
          if \<not> truthy r then (Inl (ValueError, ''Output file verification failed''), w1)
          else (Inr (), w1))"

fun copy_tags ::
  "(tag_list \<Rightarrow> string \<Rightarrow> string \<Rightarrow> pyexc + tag_list) \<Rightarrow> tag_list \<Rightarrow> tag_list
     \<Rightarrow> pyexc + tag_list" where
  "copy_tags st ts [] = Inr ts"
| "copy_tags st ts ((key, val) # kvs) =
     (case st ts key val of Inl e \<Rightarrow> Inl e | Inr ts' \<Rightarrow> copy_tags st ts' kvs)"

definition carry_metadata ::
  "mutagen_lib \<Rightarrow> audio_file option \<Rightarrow> world \<Rightarrow> string \<Rightarrow> (pyexc + unit) \<times> world" where
  "carry_metadata lib original_audio w output_file =
     (case original_audio of
        None \<Rightarrow> (Inr (), w)
      | Some oa \<Rightarrow>
          if has_tags oa then
            (case FLAC w output_file of
               Inl e \<Rightarrow> (Inl e, w)
             | Inr flac_audio \<Rightarrow>
                 (case copy_tags (set_tag lib)
                         (case tags flac_audio of None \<Rightarrow> [] | Some ts \<Rightarrow> ts)
                         (case tags oa of None \<Rightarrow> [] | Some ts \<Rightarrow> ts) of
                    Inl e \<Rightarrow> (Inl e, w)
                  | Inr ts' \<Rightarrow>
                      (case save (save_size lib) w output_file
                              (flac_audio\<lparr>tags := Some ts'\<rparr>) of
                         Inl e \<Rightarrow> (Inl e, w)
                       | Inr w' \<Rightarrow> (Inr (), w'))))
          else (Inr (), w))"

definition compare_files ::
  "runtime \<Rightarrow> world \<Rightarrow> string \<Rightarrow> string \<Rightarrow> (pyexc + bool) \<times> world" where
  "compare_files py w input_file output_file =
     (case mutagen_File w input_file of
        Inl e \<Rightarrow> (Inl e, w)
      | Inr None \<Rightarrow> (Inl (AttributeError, ''NoneType object has no attribute info''), w)
      | Inr (Some orig) \<Rightarrow>
          (case mutagen_File w output_file of
             Inl e \<Rightarrow> (Inl e, w)
           | Inr None \<Rightarrow> (Inl (AttributeError, ''NoneType object has no attribute info''), w)
           | Inr (Some conv) \<Rightarrow>
               if beyond_tolerance py (length_sec (info orig)) (length_sec (info conv))
               then (Inl (ValueError, ''Duration mismatch between input and output files''), w)
               else (Inr True, w)))"

text \<open>
  The try block: the stages in the order of the source, the first exception ends it.
\<close>

definition after_output_check ::
  "runtime \<Rightarrow> mutagen_lib \<Rightarrow> audio_file option \<Rightarrow> world \<Rightarrow> string \<Rightarrow> string
     \<Rightarrow> (pyexc + bool) \<times> world" where
  "after_output_check py lib original_audio w input_file output_file =
     (case carry_metadata lib original_audio w output_file of
        (Inl e, w1) \<Rightarrow> (Inl e, w1)
      | (Inr u, w1) \<Rightarrow> compare_files py w1 input_file output_file)"

definition after_input_check ::
  "runtime \<Rightarrow> mutagen_lib \<Rightarrow> pyexc + encoder_run \<Rightarrow> world \<Rightarrow> string \<Rightarrow> string
     \<Rightarrow> ((pyexc + bool) \<times> world) option" where
  "after_input_check py lib proc w input_file output_file =
     (case run_encoder py proc w input_file output_file of
        None \<Rightarrow> None
      | Some (Inl e, w1) \<Rightarrow> Some (Inl e, w1)
      | Some (Inr original_audio, w1) \<Rightarrow>
          (case check_output lib w1 output_file of
             (Inl e, w2) \<Rightarrow> Some (Inl e, w2)
           | (Inr u, w2) \<Rightarrow>
               Some (after_output_check py lib original_audio w2 input_file output_file)))"

definition convert_try ::
  "runtime \<Rightarrow> mutagen_lib \<Rightarrow> pyexc + encoder_run \<Rightarrow> world \<Rightarrow> string \<Rightarrow> string
     \<Rightarrow> ((pyexc + bool) \<times> world) option" where
  "convert_try py lib proc w input_file output_file =
     (case check_input lib w input_file of
        (Inl e, w1) \<Rightarrow> Some (Inl e, w1)
      | (Inr u, w1) \<Rightarrow> after_input_check py lib proc w1 input_file output_file)"

text \<open>
  The \<open>except Exception\<close> clause: it prints, removes the output path when it exists, and
  returns \<open>False\<close>. The removal is outside any \<open>try\<close>, so what it raises leaves the function.
  The colour codes and the cross mark of the printed line are left out.
\<close>

definition convert_except :: "pyexc \<Rightarrow> world \<Rightarrow> string \<Rightarrow> (pyexc + bool) \<times> world" where
  "convert_except e w output_file =
     (let w1 = print (''Conversion Failed: '' @ snd e) w in
      if os_path_exists w1 output_file then
        (case os_remove w1 output_file of
           Inl e' \<Rightarrow> (Inl e', w1)
         | Inr w2 \<Rightarrow> (Inr False, w2))
      else (Inr False, w1))"

text \<open>
  The try statement: \<open>None\<close> when the block never ends, the value it returns, or what the
  except clause makes of the exception it raises.
\<close>

definition try_except ::
  "string \<Rightarrow> ((pyexc + bool) \<times> world) option \<Rightarrow> ((pyexc + bool) \<times> world) option" where
  "try_except output_file body =
     (case body of
        None \<Rightarrow> None
      | Some (Inl e, w') \<Rightarrow> Some (convert_except e w' output_file)
      | Some (Inr b, w') \<Rightarrow> Some (Inr b, w'))"

text \<open>
  The whole function: \<open>None\<close> when it never returns, otherwise what it returns or raises,
  and the world it leaves.
\<close>

definition convert_to_flac ::
  "runtime \<Rightarrow> mutagen_lib \<Rightarrow> pyexc + encoder_run \<Rightarrow> world \<Rightarrow> string \<Rightarrow> string
     \<Rightarrow> ((pyexc + bool) \<times> world) option" where
  "convert_to_flac py lib proc w input_file output_file =
     try_except output_file (convert_try py lib proc w input_file output_file)"

section \<open>download and batch_download\<close>




text \<open>
  Configuration values are what \<open>json.load\<close> can return: \<open>None\<close>, a bool, an int, a finite
  float, a string, a list, or a dict, given by its members in the order of the document.
\<close>

datatype json =
    JNull | JBool bool | JNum int | JFloat real | JStr string | JArr "json list"
  | JObj "(string \<times> json) list"

text \<open>
  A Python dict: an association list without repeated keys, in insertion order.
  \<open>dict_set\<close> is \<open>d[k] = v\<close>, \<open>dict_merge a b\<close> is \<open>{**a, **b}\<close>.
\<close>

type_synonym pydict = "(string \<times> json) list"

fun dict_set :: "pydict \<Rightarrow> string \<Rightarrow> json \<Rightarrow> pydict" where
  "dict_set [] k v = [(k, v)]"
| "dict_set ((k', v') # d) k v =
     (if k' = k then (k, v) # d else (k', v') # dict_set d k v)"

definition dict_merge :: "pydict \<Rightarrow> (string \<times> json) list \<Rightarrow> pydict" where
  "dict_merge a b = foldl (\<lambda>d kv. dict_set d (fst kv) (snd kv)) a b"



section \<open>load_config\<close>

text \<open>
  \<open>DEFAULT_CONFIG\<close> is a global of the module, a dict. This is the value it is given when
  the module is loaded. The two directories in it come from the home directory of the
  user; they are parameters: the values of \<open>str(Path.home() / 'Videos')\<close> and
  \<open>str(Path.home() / 'Music')\<close>.
\<close>

definition DEFAULT_CONFIG :: "string \<Rightarrow> string \<Rightarrow> pydict" where
  "DEFAULT_CONFIG videos music =
     [(''ffmpeg_location'', JStr []),
      (''video_output'', JStr videos),
      (''audio_output'', JStr music),
      (''max_concurrent'', JNum 3)]"

text \<open>
  The function touches one path, \<open>CONFIG_FILE\<close>. It is missing where a file can be
  created, or missing where none can (the second \<open>open\<close> raises), or something that
  cannot be opened as a file, or a file with text: the text is a JSON document, given by
  its value, or it is not JSON.
\<close>

datatype config_file = Missing | Missing_unwritable | NotAFile | Text "json option"

text \<open>
  What the function returns is an object: the global dict itself (\<open>return DEFAULT_CONFIG\<close>),
  so that a later assignment to a key of the result changes the global, or a dict made
  by the call. \<open>current\<close> is the content of the global, given what it holds now.
\<close>

datatype config_object = The_global | New_dict pydict


text \<open>
  \<open>defaults\<close> is what the global \<open>DEFAULT_CONFIG\<close> holds when the call is made. The result
  is what the call returns or raises, and the file it leaves.
\<close>

definition load_config ::
  "pydict \<Rightarrow> config_file \<Rightarrow> (pyexc + config_object) \<times> config_file" where
  "load_config defaults cf =
     (case cf of
        Missing \<Rightarrow> (Inr The_global, Text (Some (JObj defaults)))
      | Missing_unwritable \<Rightarrow> (Inl (PermissionError, ''Permission denied''), cf)
      | NotAFile \<Rightarrow> (Inl (OSError, ''Is a directory''), cf)
      | Text None \<Rightarrow> (Inl (JSONDecodeError, ''Expecting value''), cf)
      | Text (Some (JObj kvs)) \<Rightarrow>
          (Inr (New_dict (dict_merge defaults (dict_merge [] kvs))), cf)
      | Text (Some j) \<Rightarrow> (Inl (TypeError, ''object is not a mapping''), cf))"

section \<open>find_ffmpeg and the start of DownloadManager.__init__\<close>

definition backslash :: char where
  "backslash = CHR 0x5C"

definition common_locations :: "string list" where
  "common_locations =
     [''C:'' @ backslash # ''ffmpeg'' @ backslash # ''bin'',
      ''C:'' @ backslash # ''Program Files'' @ backslash # ''ffmpeg'' @ backslash # ''bin'',
      ''C:'' @ backslash # ''ffmpeg'' @ backslash # ''ffmpeg-master-latest-win64-gpl''
        @ backslash # ''bin'',
      ''.'' @ backslash # ''ffmpeg'' @ backslash # ''bin'']"

text \<open>
  \<open>os.path.join\<close> of a location and a file name, with the separator of the platform. The
  locations joined here are not empty and do not end in a separator or a colon.
\<close>

definition os_path_join :: "char \<Rightarrow> string \<Rightarrow> string \<Rightarrow> string" where
  "os_path_join sep a b = (if a = [] \<or> last a = sep then a @ b else a @ sep # b)"

fun search_locations :: "char \<Rightarrow> world \<Rightarrow> string list \<Rightarrow> string option" where
  "search_locations sep w [] = None"
| "search_locations sep w (location # rest) =
     (if os_path_exists w (os_path_join sep location ''ffmpeg.exe'')
      then Some location
      else search_locations sep w rest)"

text \<open>
  \<open>path_probe\<close> is the status that \<open>os.system('ffmpeg -version > nul 2>&1')\<close> returns; what
  the shell command does to the file system is left out.
\<close>

definition find_ffmpeg :: "int \<Rightarrow> char \<Rightarrow> world \<Rightarrow> string option" where
  "find_ffmpeg path_probe sep w =
     (if path_probe = 0 then Some ''ffmpeg''
      else search_locations sep w common_locations)"

definition ffmpeg_instructions :: "string list" where
  "ffmpeg_instructions =
     [''FFmpeg not found! Please follow these steps to install FFmpeg:'',
      ''\<newline>1. Download FFmpeg:'',
      ''   - Visit: https://github.com/BtbN/FFmpeg-Builds/releases'',
      ''   - Download: ffmpeg-master-latest-win64-gpl.zip'',
      ''\<newline>2. Install FFmpeg:'',
      ''   - Extract the downloaded zip file'',
      ''   - Copy the extracted folder to C:'' @ backslash # ''ffmpeg'',
      ''   - Ensure ffmpeg.exe is in C:'' @ backslash # ''ffmpeg'' @ backslash # ''bin'',
      ''\<newline>Alternatively:'',
      ''- Use chocolatey: choco install ffmpeg'',
      ''- Use winget: winget install ffmpeg'',
      ''\<newline>After installation, either:'',
      ''1. Add FFmpeg to your system PATH, or'',
      ''2. Update config.json with the correct ffmpeg_location'',
      ''\<newline>For detailed instructions, visit: https://www.wikihow.com/Install-FFmpeg-on-Windows'']"

definition print_ffmpeg_instructions :: "world \<Rightarrow> world" where
  "print_ffmpeg_instructions w = w\<lparr>console := console w @ ffmpeg_instructions\<rparr>"

text \<open>Python's truth test on a configuration value.\<close>

fun json_truthy :: "json \<Rightarrow> bool" where
  "json_truthy JNull = False"
| "json_truthy (JBool b) = b"
| "json_truthy (JNum n) = (n \<noteq> 0)"
| "json_truthy (JFloat x) = (x \<noteq> 0)"
| "json_truthy (JStr s) = (s \<noteq> [])"
| "json_truthy (JArr xs) = (xs \<noteq> [])"
| "json_truthy (JObj kvs) = (kvs \<noteq> [])"

text \<open>
  The first statements of \<open>__init__\<close>, up to the end of the \<open>if\<close> on the configured
  location. The result is the configuration the manager keeps. The statements after
  them (logging, the check of the paths) run only when these do not raise.
\<close>

definition init_ffmpeg_location ::
  "int \<Rightarrow> char \<Rightarrow> pydict \<Rightarrow> world \<Rightarrow> (pyexc + pydict) \<times> world" where
  "init_ffmpeg_location path_probe sep config w =
     (case map_of config ''ffmpeg_location'' of
        None \<Rightarrow> (Inl (KeyError, ''ffmpeg_location''), w)
      | Some configured \<Rightarrow>
          if \<not> json_truthy configured then
            (case find_ffmpeg path_probe sep w of
               Some ffmpeg_path \<Rightarrow>
                 (Inr (dict_set config ''ffmpeg_location'' (JStr ffmpeg_path)), w)
             | None \<Rightarrow>
                 (Inl (FileNotFoundError,
                    ''FFmpeg is required but not found. Please install FFmpeg and try again.''),
                  print_ffmpeg_instructions w))
          else (Inr config, w))"


text \<open>
  The first statement of \<open>verify_paths\<close>, which \<open>__init__\<close> calls after \<open>setup_logging\<close>:
  the location the manager keeps has to exist as a path. \<open>ffmpeg_location\<close> is the string
  kept under that key. \<open>None\<close> is the check passing; the two \<open>os.makedirs\<close> behind it
  are left out. \<open>setup_logging\<close> opens \<open>download_log.txt\<close> and no other path.
\<close>

definition verify_paths :: "world \<Rightarrow> string \<Rightarrow> pyexc option" where
  "verify_paths w ffmpeg_location =
     (if \<not> os_path_exists w ffmpeg_location
      then Some (FileNotFoundError, ''FFMPEG not found at '' @ ffmpeg_location)
      else None)"
section \<open>Example files, libraries and runs\<close>

text \<open>
  Concrete inputs for the examples below: a stereo 48 kHz FLAC file of 2 MiB and 5 s with
  one tag, a tag library whose save keeps the size of the file, which has no name
  \<open>VorbisComment\<close> in its \<open>flac\<close> module and whose tag assignment replaces the entries of
  the key, and a run of the encoder on the file: its progress lines report 2.5 s, then
  1 s, then no number, then 5 s, and it ends with exit code 0. Nothing is locked.
\<close>

definition good_flac :: audio_file where
  "good_flac = \<lparr>is_flac = True, info = \<lparr>channels = 2, sample_rate = 48000, length_sec = 5\<rparr>,
                 tags = Some [(''title'', ''Song'')]\<rparr>"

definition example_lib :: mutagen_lib where
  "example_lib =
     \<lparr>save_size = (\<lambda>n a. Inr n),
      VorbisComment =
        Inl (AttributeError, ''module mutagen.flac has no attribute VorbisComment''),
      set_tag = (\<lambda>ts k v. Inr (filter (\<lambda>kv. fst kv \<noteq> k) ts @ [(k, v)]))\<rparr>"

definition song_world :: world where
  "song_world = \<lparr>fs = (\<lambda>p. None)(''song.flac'' \<mapsto> File 2097152 (Some good_flac)),
                  locked = {}, console = [], log = []\<rparr>"

definition out_flac :: audio_file where
  "out_flac = \<lparr>is_flac = True, info = \<lparr>channels = 2, sample_rate = 48000, length_sec = 5\<rparr>,
                tags = None\<rparr>"

definition example_run :: encoder_run where
  "example_run =
     \<lparr>events = [(''out_time_ms=2500\<newline>'', None), (''out_time_ms=1000\<newline>'', None),
                 (''out_time_ms=N/A\<newline>'', None), (''progress=continue\<newline>'', None),
                 (''out_time_ms=5000\<newline>'', None), ([], None), ([], Some 0)],
      stderr_text = [],
      written = Some (1500000, Some out_flac)\<rparr>"

definition dir_world :: world where
  "dir_world = \<lparr>fs = (\<lambda>p. None)(''song.flac'' \<mapsto> File 2097152 (Some good_flac),
                                      ''out'' \<mapsto> Dir 4096),
                  locked = {}, console = [], log = []\<rparr>"

text \<open>
  An MP3 file of 3 MiB next to a directory \<open>out\<close>, and a FLAC file of one second, for which
  a progress line of 290 ms stands at 28 percent: the quotient \<open>290 / 1000\<close> is rounded
  below \<open>0.29\<close>.
\<close>

definition talk_mp3 :: audio_file where
  "talk_mp3 = \<lparr>is_flac = False, info = \<lparr>channels = 1, sample_rate = 22050, length_sec = 600\<rparr>,
                tags = None\<rparr>"

definition mp3_world :: world where
  "mp3_world = \<lparr>fs = (\<lambda>p. None)(''talk.mp3'' \<mapsto> File 3145728 (Some talk_mp3),
                                      ''out'' \<mapsto> Dir 4096),
                  locked = {}, console = [], log = []\<rparr>"

definition second_flac :: audio_file where
  "second_flac = \<lparr>is_flac = True, info = \<lparr>channels = 2, sample_rate = 48000, length_sec = 1\<rparr>,
                   tags = Some [(''title'', ''Beep'')]\<rparr>"





definition installed_world :: world where
  "installed_world =
     \<lparr>fs = (\<lambda>p. None)
        (''C:'' @ backslash # ''ffmpeg'' @ backslash # ''bin'' @ backslash # ''ffmpeg.exe''
           \<mapsto> File 80000000 None),
      locked = {}, console = [], log = []\<rparr>"




section \<open>Properties of the verification and of the conversion\<close>

subsection \<open>What the verification returns\<close>

lemma verify_audio_file_not_True: "fst (verify_audio_file lib w p) \<noteq> Some True"
  by (simp add: verify_audio_file_def verify_error_def split: sum.splits)

lemma check_input_raises:
  "check_input lib w i =
     (Inl (ValueError, ''Input file verification failed''),
      snd (verify_audio_file lib w i))"
proof (cases "verify_audio_file lib w i")
  case (Pair r w1)
  with verify_audio_file_not_True [of lib w i] have "r \<noteq> Some True"
    by simp
  with Pair show ?thesis
    by (simp add: check_input_def truthy_def)
qed

lemma convert_try_input:
  "convert_try py lib proc w i o' =
     Some (Inl (ValueError, ''Input file verification failed''),
           snd (verify_audio_file lib w i))"
  by (simp add: convert_try_def check_input_raises)

text \<open>
  Every call ends its try block at the input check: what the function does is what the
  except clause does with that one exception, after the verification of the input. The
  runtime and the encoder do not occur on the right-hand side.
\<close>

lemma convert_to_flac_eq:
  "convert_to_flac py lib proc w i o' =
     Some (convert_except (ValueError, ''Input file verification failed'')
            (snd (verify_audio_file lib w i)) o')"
  by (simp add: convert_to_flac_def try_except_def convert_try_input)

subsection \<open>The except clause\<close>

lemma convert_except_not_True: "fst (convert_except e w o') \<noteq> Inr True"
  by (simp add: convert_except_def Let_def split: sum.splits)

lemma convert_except_dir:
  "fs w o' = Some (Dir n) \<Longrightarrow>
   convert_except e w o' =
     (Inl (OSError, ''Is a directory''), print (''Conversion Failed: '' @ snd e) w)"
  by (simp add: convert_except_def Let_def os_path_exists_def os_remove_def print_def)

lemma convert_to_flac_never_True:
  "convert_to_flac py lib proc w i o' \<noteq> Some (Inr True, w')"
  using convert_except_not_True
    [of "(ValueError, ''Input file verification failed'')" "snd (verify_audio_file lib w i)" o']
  by (auto simp: convert_to_flac_eq)

subsection \<open>The input check always fails\<close>

text \<open>
  Claim C1. The specification wants the verification to answer true exactly for a file with
  one or two channels, a sample rate of 44100, 48000 or 96000 and at least 100 KiB. The
  example file has two channels, 48000 Hz and 2 MiB: all three conditions hold, and the
  function returns \<open>None\<close>, which is falsy, and leaves the world as it was. The function
  has no \<open>return True\<close>.
\<close>

theorem verify_audio_file_accepted_flac_returns_None:
  "channels (info good_flac) \<in> {1, 2} \<and> sample_rate (info good_flac) \<in> {44100, 48000, 96000}
   \<and> fs song_world ''song.flac'' = Some (File 2097152 (Some good_flac)) \<and> 100 * 1024 \<le> (2097152::nat)
   \<and> verify_audio_file lib song_world ''song.flac'' = (None, song_world)"
  by (simp add: verify_audio_file_def lower_def lower_char_def endswith_def FLAC_def
      song_world_def good_flac_def has_tags_def os_path_getsize_def)

text \<open>
  Claim C2 at a concrete input: an MP3 file as input and an output path that names a
  directory. As the claim says, the verification returns \<open>None\<close> and the conversion fails
  at its input check. The claim goes on to say that the function returns \<open>False\<close>, for
  every input. Here the except clause prints, finds that the output path exists and
  calls \<open>os.remove\<close> on the directory, outside any \<open>try\<close>: the exception leaves the
  function, whatever the runtime, the tag library and the encoder are.
\<close>

theorem convert_to_flac_directory_output_raises:
  "fs mp3_world ''talk.mp3'' = Some (File 3145728 (Some talk_mp3)) \<and>
   fs mp3_world ''out'' = Some (Dir 4096) \<and>
   verify_audio_file lib mp3_world ''talk.mp3'' = (None, mp3_world) \<and>
   convert_try py lib proc mp3_world ''talk.mp3'' ''out'' =
     Some (Inl (ValueError, ''Input file verification failed''), mp3_world) \<and>
   convert_to_flac py lib proc mp3_world ''talk.mp3'' ''out'' =
     Some (Inl (OSError, ''Is a directory''),
           print ''Conversion Failed: Input file verification failed'' mp3_world)"
proof -
  have v: "verify_audio_file lib mp3_world ''talk.mp3'' = (None, mp3_world)"
    by (simp add: verify_audio_file_def lower_def lower_char_def endswith_def)
  have f: "fs mp3_world ''talk.mp3'' = Some (File 3145728 (Some talk_mp3))"
    by (simp add: mp3_world_def)
  have d: "fs mp3_world ''out'' = Some (Dir 4096)"
    by (simp add: mp3_world_def)
  have t: "convert_try py lib proc mp3_world ''talk.mp3'' ''out'' =
     Some (Inl (ValueError, ''Input file verification failed''), mp3_world)"
    by (simp add: convert_try_input v)
  have c: "convert_to_flac py lib proc mp3_world ''talk.mp3'' ''out'' =
     Some (Inl (OSError, ''Is a directory''),
           print ''Conversion Failed: Input file verification failed'' mp3_world)"
    by (simp add: convert_to_flac_eq v convert_except_dir [OF d])
  from v f d t c show ?thesis by simp
qed

subsection \<open>The runtime of the examples\<close>

lemmas double_eval = to_double_def round_even_def pow2_def eval_nat_numeral Let_def

lemma double_one: "to_double 1 = Some 1"
  by (simp add: double_eval)

lemma double_five: "to_double 5 = Some 5"
  by (simp add: double_eval)

lemma double_five_halves: "to_double (5 / 2) = Some (5 / 2)"
  by (simp add: double_eval)

lemma double_half: "to_double (1 / 2) = Some (1 / 2)"
  by (simp add: double_eval)

lemma double_fifty: "to_double 50 = Some 50"
  by (simp add: double_eval)

lemma double_hundred: "to_double 100 = Some 100"
  by (simp add: double_eval)

lemma double_fifth: "to_double (1 / 5) = Some (3602879701896397 / 18014398509481984)"
  by (simp add: double_eval)

lemma double_twenty: "to_double (90071992547409925 / 4503599627370496) = Some 20"
  by (simp add: double_eval)

lemma double_29: "to_double (29 / 100) = Some (5224175567749775 / 18014398509481984)"
  by (simp add: double_eval)

lemma double_29_again:
  "to_double (5224175567749775 / 18014398509481984) =
     Some (5224175567749775 / 18014398509481984)"
  by (simp add: double_eval)

lemma double_28:
  "to_double (130604389193744375 / 4503599627370496) =
     Some (8162774324609023 / 281474976710656)"
  by (simp add: double_eval)

text \<open>
  2500 ms of 5 s are 50 percent, 1000 ms are 20, 5000 ms are 100; 290 ms of 1 s are 28
  percent, since \<open>290 / 1000\<close> is a double below \<open>0.29\<close> and its product with 100 is the
  double below 29.
\<close>

lemma percent_2500: "py_int_truediv 2500 1000 = Inr (5 / 2) \<and> py_percent_int (5 / 2) 5 = Inr 50"
  by (simp add: py_int_truediv_def py_percent_int_def double_five_halves double_half
      double_fifty py_trunc_def)

lemma percent_1000: "py_int_truediv 1000 1000 = Inr 1 \<and> py_percent_int 1 5 = Inr 20"
  by (simp add: py_int_truediv_def py_percent_int_def double_one double_fifth double_twenty
      py_trunc_def)

lemma percent_5000: "py_int_truediv 5000 1000 = Inr 5 \<and> py_percent_int 5 5 = Inr 100"
  by (simp add: py_int_truediv_def py_percent_int_def double_one double_five double_hundred
      py_trunc_def)

lemma percent_290:
  "py_int_truediv 290 1000 = Inr (5224175567749775 / 18014398509481984) \<and>
   py_percent_int (5224175567749775 / 18014398509481984) 1 = Inr 28"
  by (simp add: py_int_truediv_def py_percent_int_def double_29 double_29_again double_28
      py_trunc_def)

lemmas parse_eval = split_eq_1_def py_int_def strip_def unsigned_def is_space_def is_digit_def
  digits_value_def

lemma parse_2500:
  "split_eq_1 ''out_time_ms=2500\<newline>'' = Inr ''2500\<newline>'' \<and> py_int 4300 ''2500\<newline>'' = Inr 2500"
  by (simp add: parse_eval)

lemma parse_1000:
  "split_eq_1 ''out_time_ms=1000\<newline>'' = Inr ''1000\<newline>'' \<and> py_int 4300 ''1000\<newline>'' = Inr 1000"
  by (simp add: parse_eval)

lemma parse_5000:
  "split_eq_1 ''out_time_ms=5000\<newline>'' = Inr ''5000\<newline>'' \<and> py_int 4300 ''5000\<newline>'' = Inr 5000"
  by (simp add: parse_eval)

lemma parse_290:
  "split_eq_1 ''out_time_ms=290\<newline>'' = Inr ''290\<newline>'' \<and> py_int 4300 ''290\<newline>'' = Inr 290"
  by (simp add: parse_eval)

lemma parse_not_a_number:
  "split_eq_1 ''out_time_ms=N/A\<newline>'' = Inr ''N/A\<newline>'' \<and>
   int_str (cpython 4300) ''N/A\<newline>'' =
     Inl (ValueError, ''invalid literal for int() with base 10'')"
  by (simp add: parse_eval cpython_def)

lemma progress_2500:
  "progress_of (cpython 4300) (Some good_flac) ''out_time_ms=2500\<newline>'' = Inr 50"
  by (simp add: progress_of_def cpython_def parse_2500 percent_2500 good_flac_def)

lemma progress_1000:
  "progress_of (cpython 4300) (Some good_flac) ''out_time_ms=1000\<newline>'' = Inr 20"
  by (simp add: progress_of_def cpython_def parse_1000 percent_1000 good_flac_def)

lemma progress_5000:
  "progress_of (cpython 4300) (Some good_flac) ''out_time_ms=5000\<newline>'' = Inr 100"
  by (simp add: progress_of_def cpython_def parse_5000 percent_5000 good_flac_def)

lemma progress_290:
  "progress_of (cpython 4300) (Some second_flac) ''out_time_ms=290\<newline>'' = Inr 28"
  by (simp add: progress_of_def cpython_def parse_290 percent_290 second_flac_def)

lemma progress_not_a_number:
  "progress_of (cpython 4300) (Some good_flac) ''out_time_ms=N/A\<newline>'' =
     Inl (ValueError, ''invalid literal for int() with base 10'')"
  using parse_not_a_number by (simp add: progress_of_def)

lemma example_monitor:
  "monitor (cpython 4300) (Some good_flac) (events example_run) (0, []) =
     Some (Inr (0, 100, [50, 50]))"
  by (simp add: example_run_def monitor_line_def progress_2500 progress_1000 progress_5000
      progress_not_a_number)

subsection \<open>The progress loop\<close>

lemma monitor_line_cases:
  "monitor_line py orig line (lp, bar) = Inr st' \<Longrightarrow>
   st' = (lp, bar) \<or>
   (\<exists>p. contains ''out_time_ms='' line \<and> progress_of py orig line = Inr p \<and> lp < p \<and>
        st' = (p, bar @ [p - lp]))"
  by (auto simp: monitor_line_def split: if_splits sum.splits)

lemma monitor_updates:
  "monitor py orig evs (lp, bar) = Some (Inr (rc, lp', bar')) \<Longrightarrow>
   \<exists>new. bar' = bar @ new \<and> list_all (\<lambda>d. 0 < d) new \<and> lp' = lp + sum_list new"
proof (induction evs arbitrary: lp bar)
  case Nil
  then show ?case by simp
next
  case (Cons ev evs)
  obtain line poll where ev: "ev = (line, poll)" by (cases ev)
  show ?case
  proof (cases "line = [] \<and> poll \<noteq> None")
    case True
    with Cons.prems ev show ?thesis by (auto split: list.splits option.splits)
  next
    case False
    with Cons.prems ev obtain st' where
      ml: "monitor_line py orig line (lp, bar) = Inr st'" and
      rest: "monitor py orig evs st' = Some (Inr (rc, lp', bar'))"
      by (auto split: list.splits option.splits sum.splits)
    from monitor_line_cases [OF ml] show ?thesis
    proof
      assume "st' = (lp, bar)"
      with rest Cons.IH show ?thesis by simp
    next
      assume "\<exists>p. contains ''out_time_ms='' line \<and> progress_of py orig line = Inr p \<and> lp < p \<and>
        st' = (p, bar @ [p - lp])"
      then obtain p where lt: "lp < p" and st: "st' = (p, bar @ [p - lp])" by blast
      from rest st Cons.IH [of p "bar @ [p - lp]"]
      obtain new where "bar' = (bar @ [p - lp]) @ new" "list_all (\<lambda>d. 0 < d) new"
        "lp' = p + sum_list new" by blast
      with lt have "bar' = bar @ ((p - lp) # new) \<and> list_all (\<lambda>d. 0 < d) ((p - lp) # new)
         \<and> lp' = lp + sum_list ((p - lp) # new)" by simp
      then show ?thesis by blast
    qed
  qed
qed

text \<open>
  Claim C6, for every runtime, audio object and line. In one pass of the loop the bar is
  updated only when the line gives a percentage above \<open>last_progress\<close>, and then by the
  difference; a line whose percentage is equal or smaller, a line without the marker and
  a line on whose number \<open>int\<close> raises \<open>ValueError\<close> leave \<open>last_progress\<close> and the bar as
  they were, and the loop goes on. Over a whole sequence of lines every amount passed to
  the bar is positive and \<open>last_progress\<close> grows by their sum.
\<close>

theorem progress_bar_updated_only_on_increase:
  "(monitor_line py orig line (lp, bar) = Inr (lp', bar') \<and> bar' \<noteq> bar \<longrightarrow>
      (\<exists>p. progress_of py orig line = Inr p \<and> lp < p \<and> lp' = p \<and> bar' = bar @ [p - lp])) \<and>
   (progress_of py orig line = Inr q \<and> q \<le> lp \<longrightarrow>
      monitor_line py orig line (lp, bar) = Inr (lp, bar)) \<and>
   (\<not> contains ''out_time_ms='' line \<or>
    (\<exists>f m. split_eq_1 line = Inr f \<and> int_str py f = Inl (ValueError, m)) \<longrightarrow>
      monitor_line py orig line (lp, bar) = Inr (lp, bar)) \<and>
   (monitor py orig evs (lp, bar) = Some (Inr (rc, lp'', bar'')) \<longrightarrow>
      (\<exists>new. bar'' = bar @ new \<and> list_all (\<lambda>d. 0 < d) new \<and> lp'' = lp + sum_list new))"
proof (intro conjI impI)
  assume "monitor_line py orig line (lp, bar) = Inr (lp', bar') \<and> bar' \<noteq> bar"
  with monitor_line_cases [of py orig line lp bar "(lp', bar')"]
  show "\<exists>p. progress_of py orig line = Inr p \<and> lp < p \<and> lp' = p \<and> bar' = bar @ [p - lp]"
    by auto
next
  assume "progress_of py orig line = Inr q \<and> q \<le> lp"
  then show "monitor_line py orig line (lp, bar) = Inr (lp, bar)"
    by (simp add: monitor_line_def)
next
  assume "\<not> contains ''out_time_ms='' line \<or>
    (\<exists>f m. split_eq_1 line = Inr f \<and> int_str py f = Inl (ValueError, m))"
  then show "monitor_line py orig line (lp, bar) = Inr (lp, bar)"
    by (auto simp: monitor_line_def progress_of_def)
next
  assume "monitor py orig evs (lp, bar) = Some (Inr (rc, lp'', bar''))"
  then show "\<exists>new. bar'' = bar @ new \<and> list_all (\<lambda>d. 0 < d) new \<and> lp'' = lp + sum_list new"
    by (rule monitor_updates)
qed

text \<open>
  Claim C6 on CPython. With a 5 s input the line for 2.5 s moves the bar from 0 to 50; at
  50 the line for 1 s gives 20 and the line without a number does not parse, and both
  leave the bar alone; the whole example run passes 50 and 50 to the bar. With a 1 s
  input the line for 290 ms gives 28, and leaves a bar that stands at 28 alone.
\<close>

theorem progress_bar_updated_only_on_increase_witness:
  "monitor_line (cpython 4300) (Some good_flac) ''out_time_ms=2500\<newline>'' (0, []) = Inr (50, [50]) \<and>
   progress_of (cpython 4300) (Some good_flac) ''out_time_ms=2500\<newline>'' = Inr 50 \<and>
   progress_of (cpython 4300) (Some good_flac) ''out_time_ms=1000\<newline>'' = Inr 20 \<and>
   monitor_line (cpython 4300) (Some good_flac) ''out_time_ms=1000\<newline>'' (50, [50]) = Inr (50, [50]) \<and>
   monitor_line (cpython 4300) (Some good_flac) ''out_time_ms=N/A\<newline>'' (50, [50]) = Inr (50, [50]) \<and>
   progress_of (cpython 4300) (Some second_flac) ''out_time_ms=290\<newline>'' = Inr 28 \<and>
   monitor_line (cpython 4300) (Some second_flac) ''out_time_ms=290\<newline>'' (28, [28]) = Inr (28, [28]) \<and>
   monitor (cpython 4300) (Some good_flac) (events example_run) (0, []) =
     Some (Inr (0, 100, [50, 50])) \<and>
   (\<exists>new. [50, 50] = [] @ new \<and> list_all (\<lambda>d. 0 < d) new \<and> (100::int) = 0 + sum_list new)"
proof -
  note t = progress_bar_updated_only_on_increase
  have u: "monitor_line (cpython 4300) (Some good_flac) ''out_time_ms=2500\<newline>'' (0, []) =
      Inr (50, [50])"
    by (simp add: monitor_line_def progress_2500)
  from t [where py = "cpython 4300" and orig = "Some good_flac"
      and line = "''out_time_ms=2500\<newline>''" and lp = 0 and bar = "[]" and lp' = 50
      and bar' = "[50]"] u
  have a: "\<exists>p. progress_of (cpython 4300) (Some good_flac) ''out_time_ms=2500\<newline>'' = Inr p \<and>
      0 < p \<and> 50 = p \<and> [50] = [] @ [p - 0]"
    by simp
  from t [where py = "cpython 4300" and orig = "Some good_flac"
      and line = "''out_time_ms=1000\<newline>''" and q = 20 and lp = 50 and bar = "[50]"]
    progress_1000
  have b: "monitor_line (cpython 4300) (Some good_flac) ''out_time_ms=1000\<newline>'' (50, [50]) =
      Inr (50, [50])"
    by simp
  from t [where py = "cpython 4300" and orig = "Some good_flac"
      and line = "''out_time_ms=N/A\<newline>''" and lp = 50 and bar = "[50]"] parse_not_a_number
  have c: "monitor_line (cpython 4300) (Some good_flac) ''out_time_ms=N/A\<newline>'' (50, [50]) =
      Inr (50, [50])"
    by blast
  from t [where py = "cpython 4300" and orig = "Some second_flac"
      and line = "''out_time_ms=290\<newline>''" and q = 28 and lp = 28 and bar = "[28]"]
    progress_290
  have d: "monitor_line (cpython 4300) (Some second_flac) ''out_time_ms=290\<newline>'' (28, [28]) =
      Inr (28, [28])"
    by simp
  from t [where py = "cpython 4300" and orig = "Some good_flac" and evs = "events example_run"
      and lp = 0 and bar = "[]" and rc = 0 and lp'' = 100 and bar'' = "[50, 50]"]
    example_monitor
  have e: "\<exists>new. [50, 50] = [] @ new \<and> list_all (\<lambda>d. 0 < d) new \<and> (100::int) = 0 + sum_list new"
    by blast
  from a have a': "progress_of (cpython 4300) (Some good_flac) ''out_time_ms=2500\<newline>'' = Inr 50"
    by auto
  from u a' b c d e progress_1000 progress_290 example_monitor show ?thesis by blast
qed

subsection \<open>What the caller gets\<close>

text \<open>
  Claim C5 at two concrete inputs. First the success case of the specification: an
  accepted input, an encoder that ends with exit code 0 and writes an output of the same
  duration. The function prints that the input verification failed and returns \<open>False\<close>,
  as it does for every input, since the verification never returns \<open>True\<close>. Second the
  same input with an output path that names a directory: the exception of \<open>os.remove\<close>
  in the except clause leaves the function.
\<close>

theorem convert_to_flac_success_case_returns_False:
  "channels (info good_flac) \<in> {1, 2} \<and> sample_rate (info good_flac) \<in> {44100, 48000, 96000} \<and>
   fs song_world ''song.flac'' = Some (File 2097152 (Some good_flac)) \<and>
   monitor (cpython 4300) (Some good_flac) (events example_run) (0, []) =
     Some (Inr (0, 100, [50, 50])) \<and>
   written example_run = Some (1500000, Some out_flac) \<and>
   length_sec (info out_flac) = length_sec (info good_flac) \<and>
   convert_to_flac (cpython 4300) example_lib (Inr example_run) song_world
       ''song.flac'' ''out.flac'' =
     Some (Inr False, print ''Conversion Failed: Input file verification failed'' song_world) \<and>
   convert_to_flac (cpython 4300) example_lib (Inr example_run) dir_world ''song.flac'' ''out'' =
     Some (Inl (OSError, ''Is a directory''),
           print ''Conversion Failed: Input file verification failed'' dir_world)"
proof -
  have v: "verify_audio_file example_lib song_world ''song.flac'' = (None, song_world)"
    by (simp add: verify_audio_file_def lower_def lower_char_def endswith_def FLAC_def
      song_world_def good_flac_def has_tags_def os_path_getsize_def)
  have v': "verify_audio_file example_lib dir_world ''song.flac'' = (None, dir_world)"
    by (simp add: verify_audio_file_def lower_def lower_char_def endswith_def FLAC_def
      dir_world_def good_flac_def has_tags_def os_path_getsize_def)
  have d: "fs dir_world ''out'' = Some (Dir 4096)"
    by (simp add: dir_world_def)
  have n: "\<not> os_path_exists (print ''Conversion Failed: Input file verification failed'' song_world)
      ''out.flac''"
    by (simp add: os_path_exists_def print_def song_world_def)
  have a: "convert_to_flac (cpython 4300) example_lib (Inr example_run) song_world
       ''song.flac'' ''out.flac'' =
     Some (Inr False, print ''Conversion Failed: Input file verification failed'' song_world)"
    using n by (simp add: convert_to_flac_eq v convert_except_def Let_def)
  have b: "convert_to_flac (cpython 4300) example_lib (Inr example_run) dir_world
       ''song.flac'' ''out'' =
     Some (Inl (OSError, ''Is a directory''),
           print ''Conversion Failed: Input file verification failed'' dir_world)"
    by (simp add: convert_to_flac_eq v' convert_except_dir [OF d])
  have g: "channels (info good_flac) \<in> {1, 2} \<and>
      sample_rate (info good_flac) \<in> {44100, 48000, 96000} \<and>
      length_sec (info out_flac) = length_sec (info good_flac)"
    by (simp add: good_flac_def out_flac_def)
  have s: "fs song_world ''song.flac'' = Some (File 2097152 (Some good_flac))"
    by (simp add: song_world_def)
  have w: "written example_run = Some (1500000, Some out_flac)"
    by (simp add: example_run_def)
  from a b g s w example_monitor show ?thesis by simp
qed

section \<open>Properties of the configuration loader\<close>











text \<open>
  Claim C10. A file whose text is not JSON makes the function raise the parse error and
  leaves the file as it is: no defaults are returned. The function changes the file only
  when it is missing, and it returns a configuration only when the file is missing or
  holds a JSON object.
\<close>

theorem load_config_malformed_json_raises:
  "load_config defaults (Text None) = (Inl (JSONDecodeError, ''Expecting value''), Text None) \<and>
   (snd (load_config defaults cf) \<noteq> cf) = (cf = Missing) \<and>
   ((\<exists>config. fst (load_config defaults cf) = Inr config) =
      (cf = Missing \<or> (\<exists>kvs. cf = Text (Some (JObj kvs)))))"
  by (auto simp: load_config_def split: config_file.splits option.splits json.splits)

section \<open>batch_download\<close>






section \<open>find_ffmpeg and the construction of the manager\<close>

lemma search_locations_None:
  "(search_locations sep w locs = None) =
   (\<forall>l \<in> set locs. \<not> os_path_exists w (os_path_join sep l ''ffmpeg.exe''))"
  by (induction locs) auto

lemma search_locations_Some:
  "search_locations sep w locs = Some loc \<Longrightarrow>
   \<exists>pre post. locs = pre @ loc # post \<and> os_path_exists w (os_path_join sep loc ''ffmpeg.exe'') \<and>
     (\<forall>l \<in> set pre. \<not> os_path_exists w (os_path_join sep l ''ffmpeg.exe''))"
proof (induction locs)
  case Nil
  then show ?case by simp
next
  case (Cons x xs)
  show ?case
  proof (cases "os_path_exists w (os_path_join sep x ''ffmpeg.exe'')")
    case True
    with Cons.prems have "x = loc" by simp
    with True have "x # xs = [] @ loc # xs \<and>
      os_path_exists w (os_path_join sep loc ''ffmpeg.exe'') \<and>
      (\<forall>l \<in> set []. \<not> os_path_exists w (os_path_join sep l ''ffmpeg.exe''))" by simp
    then show ?thesis by blast
  next
    case False
    with Cons.prems have "search_locations sep w xs = Some loc" by simp
    from Cons.IH [OF this] obtain pre post where
      "xs = pre @ loc # post" "os_path_exists w (os_path_join sep loc ''ffmpeg.exe'')"
      "\<forall>l \<in> set pre. \<not> os_path_exists w (os_path_join sep l ''ffmpeg.exe'')" by blast
    with False have "x # xs = (x # pre) @ loc # post \<and>
      os_path_exists w (os_path_join sep loc ''ffmpeg.exe'') \<and>
      (\<forall>l \<in> set (x # pre). \<not> os_path_exists w (os_path_join sep l ''ffmpeg.exe''))" by simp
    then show ?thesis by blast
  qed
qed

text \<open>
  What the locator does when the encoder is not on the execution path: it returns the
  first of the four fixed locations that holds \<open>ffmpeg.exe\<close>, and \<open>None\<close> exactly when
  none of them does.
\<close>

lemma find_ffmpeg_fixed_locations:
  assumes "path_probe \<noteq> 0"
  shows "(find_ffmpeg path_probe sep w = None) =
           (\<forall>l \<in> set common_locations. \<not> os_path_exists w (os_path_join sep l ''ffmpeg.exe''))"
    and "find_ffmpeg path_probe sep w = Some loc \<Longrightarrow>
           \<exists>pre post. common_locations = pre @ loc # post \<and>
             os_path_exists w (os_path_join sep loc ''ffmpeg.exe'') \<and>
             (\<forall>l \<in> set pre. \<not> os_path_exists w (os_path_join sep l ''ffmpeg.exe''))"
proof -
  from assms show "(find_ffmpeg path_probe sep w = None) =
           (\<forall>l \<in> set common_locations. \<not> os_path_exists w (os_path_join sep l ''ffmpeg.exe''))"
    by (simp add: find_ffmpeg_def search_locations_None)
next
  assume "find_ffmpeg path_probe sep w = Some loc"
  with assms have "search_locations sep w common_locations = Some loc"
    by (simp add: find_ffmpeg_def)
  then show "\<exists>pre post. common_locations = pre @ loc # post \<and>
             os_path_exists w (os_path_join sep loc ''ffmpeg.exe'') \<and>
             (\<forall>l \<in> set pre. \<not> os_path_exists w (os_path_join sep l ''ffmpeg.exe''))"
    by (rule search_locations_Some)
qed

text \<open>
  On the not-found result, with no location configured, the construction of the manager
  prints the instructions and raises.
\<close>

lemma init_ffmpeg_location_not_found:
  assumes "map_of config ''ffmpeg_location'' = Some configured"
    and "\<not> json_truthy configured"
    and "find_ffmpeg path_probe sep w = None"
  shows "init_ffmpeg_location path_probe sep config w =
           (Inl (FileNotFoundError,
              ''FFmpeg is required but not found. Please install FFmpeg and try again.''),
            w\<lparr>console := console w @ ffmpeg_instructions\<rparr>)"
  using assms by (simp add: init_ffmpeg_location_def print_ffmpeg_instructions_def)

lemma installed_first_location:
  "os_path_exists installed_world
     (os_path_join backslash (''C:'' @ backslash # ''ffmpeg'' @ backslash # ''bin'') ''ffmpeg.exe'')"
  by (simp add: os_path_join_def os_path_exists_def installed_world_def backslash_def)

text \<open>
  Claim C9 at a concrete input: the encoder is installed in the first of the fixed
  locations, that directory is on the execution path, and no location is configured. The
  claim wants the locator to return the directory that holds the executable. The probe of
  the execution path succeeds and the locator returns the command name \<open>ffmpeg\<close>, which is
  no directory and no path that exists; with the probe failing, the same world gives the
  directory. The manager keeps the command name as its location, and the check of the
  paths, which takes the location for a path that has to exist, raises: the manager is
  not constructed although the encoder is installed and found.
\<close>

theorem find_ffmpeg_on_path_returns_command_name:
  "find_ffmpeg 0 backslash installed_world = Some ''ffmpeg'' \<and>
   \<not> os_path_exists installed_world ''ffmpeg'' \<and>
   \<not> os_path_exists installed_world (os_path_join backslash ''ffmpeg'' ''ffmpeg.exe'') \<and>
   find_ffmpeg 1 backslash installed_world =
     Some (''C:'' @ backslash # ''ffmpeg'' @ backslash # ''bin'') \<and>
   init_ffmpeg_location 0 backslash (DEFAULT_CONFIG ''/home/u/Videos'' ''/home/u/Music'')
       installed_world =
     (Inr [(''ffmpeg_location'', JStr ''ffmpeg''),
           (''video_output'', JStr ''/home/u/Videos''),
           (''audio_output'', JStr ''/home/u/Music''),
           (''max_concurrent'', JNum 3)],
      installed_world) \<and>
   verify_paths installed_world ''ffmpeg'' =
     Some (FileNotFoundError, ''FFMPEG not found at ffmpeg'')"
proof -
  have a: "find_ffmpeg 0 backslash installed_world = Some ''ffmpeg''"
    by (simp add: find_ffmpeg_def)
  have b: "\<not> os_path_exists installed_world ''ffmpeg''"
    by (simp add: os_path_exists_def installed_world_def)
  have c: "\<not> os_path_exists installed_world (os_path_join backslash ''ffmpeg'' ''ffmpeg.exe'')"
    by (simp add: os_path_exists_def installed_world_def os_path_join_def backslash_def)
  have d: "find_ffmpeg 1 backslash installed_world =
     Some (''C:'' @ backslash # ''ffmpeg'' @ backslash # ''bin'')"
    using installed_first_location by (simp add: find_ffmpeg_def common_locations_def)
  have e: "init_ffmpeg_location 0 backslash (DEFAULT_CONFIG ''/home/u/Videos'' ''/home/u/Music'')
       installed_world =
     (Inr [(''ffmpeg_location'', JStr ''ffmpeg''),
           (''video_output'', JStr ''/home/u/Videos''),
           (''audio_output'', JStr ''/home/u/Music''),
           (''max_concurrent'', JNum 3)],
      installed_world)"
    by (simp add: init_ffmpeg_location_def a DEFAULT_CONFIG_def)
  have f: "verify_paths installed_world ''ffmpeg'' =
     Some (FileNotFoundError, ''FFMPEG not found at ffmpeg'')"
    using b by (simp add: verify_paths_def)
  from a b c d e f show ?thesis by simp
qed
end
